theory Spec2Isabelle
  imports Main "HOL-Library.Monad_Syntax"
begin

section \<open>Strings\<close>

text \<open>
  A Python \<open>str\<close> is modelled as a \<open>string\<close> whose characters are the code points
  below 256. On these, \<open>str.strip\<close> and the regular expression class \<open>\s\<close> agree
  on the characters below, and \<open>\d\<close> is the ASCII digits.
\<close>

definition is_space :: "char \<Rightarrow> bool" where
  "is_space c = (c \<in> {CHR 0x09, CHR 0x0A, CHR 0x0B, CHR 0x0C, CHR 0x0D,
                        CHR 0x1C, CHR 0x1D, CHR 0x1E, CHR 0x1F, CHR 0x20, CHR 0x85, CHR 0xA0})"


definition is_upper :: "char \<Rightarrow> bool" where
  "is_upper c = (c \<in> set ''ABCDEFGHIJKLMNOPQRSTUVWXYZ'')"

text \<open>\<open>s.strip()\<close>\<close>

definition strip :: "string \<Rightarrow> string" where
  "strip s = rev (dropWhile is_space (rev (dropWhile is_space s)))"

text \<open>\<open>s.startswith(p)\<close> and \<open>s.endswith(p)\<close>\<close>

definition startswith :: "string \<Rightarrow> string \<Rightarrow> bool" where
  "startswith s p = (take (length p) s = p)"

definition endswith :: "string \<Rightarrow> string \<Rightarrow> bool" where
  "endswith s p = (length p \<le> length s \<and> drop (length s - length p) s = p)"

text \<open>
  The slice \<open>s[a:b]\<close> for indices \<open>0 \<le> a\<close> and \<open>0 \<le> b \<le> len(s)\<close>; it is empty
  when \<open>b \<le> a\<close>. The slice \<open>s[a:-1]\<close> of a non-empty \<open>s\<close> is \<open>slice s a (length s - 1)\<close>.
\<close>

definition slice :: "string \<Rightarrow> nat \<Rightarrow> nat \<Rightarrow> string" where
  "slice s a b = take (b - a) (drop a s)"



section \<open>Formulas\<close>

text \<open>
  The source represents a variable by its name (a \<open>str\<close>), a negation by the tuple
  \<open>('~', f)\<close> and an implication by the tuple \<open>('->', l, r)\<close>.
\<close>

datatype formula = Var string | Neg formula | Imp formula formula

text \<open>
  \<open>re.match(r"^[A-Z]$", s)\<close>: one upper-case letter; \<open>$\<close> also matches before a
  final newline.
\<close>

definition variable_name :: "string \<Rightarrow> bool" where
  "variable_name s =
     (case s of
        [c] \<Rightarrow> is_upper c
      | [c, n] \<Rightarrow> is_upper c \<and> n = CHR 0x0A
      | _ \<Rightarrow> False)"

fun is_variable :: "formula \<Rightarrow> bool" where
  "is_variable (Var s) = variable_name s"
| "is_variable _ = False"

fun is_negation :: "formula \<Rightarrow> bool" where
  "is_negation (Neg _) = True"
| "is_negation _ = False"

fun is_implication :: "formula \<Rightarrow> bool" where
  "is_implication (Imp _ _) = True"
| "is_implication _ = False"

text \<open>
  \<open>formula[1]\<close> and \<open>formula[2]\<close>. \<open>None\<close> is the \<open>IndexError\<close> Python raises when
  the index is out of range: a negation has no item 2, and a string has item \<open>k\<close>
  (a one-character string) only when it is long enough.
\<close>

fun item1 :: "formula \<Rightarrow> formula option" where
  "item1 (Var s) = (if 1 < length s then Some (Var [s ! 1]) else None)"
| "item1 (Neg f) = Some f"
| "item1 (Imp l r) = Some l"

fun item2 :: "formula \<Rightarrow> formula option" where
  "item2 (Var s) = (if 2 < length s then Some (Var [s ! 2]) else None)"
| "item2 (Neg f) = None"
| "item2 (Imp l r) = Some r"

section \<open>Parser\<close>

datatype parser_error =
    MismatchedParenthesis string
  | MalformedImplication string
  | InvalidSyntax string

text \<open>
  The \<open>for\<close> loop of \<open>parse\<close> over \<open>enumerate(formula_string[1:-1])\<close>: the
  characters still to visit, the index \<open>i\<close> of the first of them and \<open>balance\<close>.
  It ends by raising, by \<open>break\<close> with \<open>split_index\<close> set, or by running out of
  characters with \<open>split_index = -1\<close>.
\<close>

datatype scan = Raised | Split nat | NoSplit

fun find_split :: "string \<Rightarrow> string \<Rightarrow> nat \<Rightarrow> int \<Rightarrow> scan" where
  "find_split formula_string [] i balance = NoSplit"
| "find_split formula_string (c # cs) i balance =
     (if c = CHR ''('' then find_split formula_string cs (i + 1) (balance + 1)
      else if c = CHR '')'' then
        (if balance - 1 < 0 then Raised
         else find_split formula_string cs (i + 1) (balance - 1))
      else if c = CHR ''-'' \<and> i + 2 < length formula_string
              \<and> formula_string ! (i + 2) = CHR ''>'' \<and> balance = 0
        then Split (i + 1)
      else find_split formula_string cs (i + 1) balance)"

lemma length_strip_le: "length (strip s) \<le> length s"
proof -
  have "length (dropWhile is_space (rev (dropWhile is_space s))) \<le> length (rev (dropWhile is_space s))"
    by (rule length_dropWhile_le)
  also have "\<dots> \<le> length s"
    by (simp add: length_dropWhile_le)
  finally show ?thesis
    by (simp add: strip_def)
qed

lemma startswith_shorter:
  assumes "startswith (strip x) [c]"
  shows "length (strip x) - Suc 0 < length x"
    and "0 < a \<Longrightarrow> length (slice (strip x) a b) < length x"
proof -
  from assms obtain t where s: "strip x = c # t"
    by (cases "strip x") (auto simp: startswith_def)
  have le: "length (strip x) \<le> length x"
    by (rule length_strip_le)
  show "length (strip x) - Suc 0 < length x"
    using le s by simp
  have "length (slice (strip x) a b) \<le> length (strip x) - a"
    by (simp add: slice_def)
  then show "length (slice (strip x) a b) < length x" if "0 < a"
    using le s that by simp
qed

function parse :: "string \<Rightarrow> parser_error + formula" where
  "parse formula_string =
     (let s = strip formula_string in
      if variable_name s then Inr (Var s)
      else if startswith s ''~'' then
        (case parse (drop 1 s) of
           Inl e \<Rightarrow> Inl e
         | Inr f \<Rightarrow> Inr (Neg f))
      else if startswith s ''('' \<and> endswith s '')'' then
        (case find_split s (slice s 1 (length s - 1)) 0 0 of
           Raised \<Rightarrow> Inl (MismatchedParenthesis s)
         | NoSplit \<Rightarrow> Inl (MalformedImplication s)
         | Split split_index \<Rightarrow>
             (let left_str = slice s 1 split_index;
                  right_str = slice s (split_index + 3) (length s - 1)
              in if left_str \<noteq> [] \<and> right_str \<noteq> [] then
                   (case parse left_str of
                      Inl e \<Rightarrow> Inl e
                    | Inr l \<Rightarrow>
                        (case parse right_str of
                           Inl e \<Rightarrow> Inl e
                         | Inr r \<Rightarrow> Inr (Imp l r)))
                 else Inl (MalformedImplication s)))
      else Inl (InvalidSyntax s))"
  by pat_completeness auto
termination
  by (relation "measure length") (auto simp: startswith_shorter)

declare parse.simps [simp del]

section \<open>Axiom checkers\<close>

text \<open>
  Python's \<open>a and b\<close> on booleans: \<open>b\<close> is evaluated only when \<open>a\<close> is true, so an
  exception in \<open>b\<close> is raised only then. \<open>None\<close> is a raised exception.
\<close>

definition py_and :: "bool option \<Rightarrow> bool option \<Rightarrow> bool option" where
  "py_and a b = (case a of None \<Rightarrow> None | Some x \<Rightarrow> if x then b else Some False)"


definition is_axiom1 :: "formula \<Rightarrow> bool option" where
  "is_axiom1 formula =
     (case py_and (Some (is_implication formula))
                  (map_option is_implication (item2 formula)) of
        None \<Rightarrow> None
      | Some shape \<Rightarrow>
          if \<not> shape then Some False
          else do {
            A \<leftarrow> item1 formula;
            A_prime \<leftarrow> item2 formula \<bind> item2;
            Some (A = A_prime)
          })"

definition is_axiom2 :: "formula \<Rightarrow> bool option" where
  "is_axiom2 formula =
     (case py_and (Some (is_implication formula))
          (py_and (map_option is_implication (item1 formula))
          (py_and (map_option is_implication (item1 formula \<bind> item2))
          (py_and (map_option is_implication (item2 formula))
          (py_and (map_option is_implication (item2 formula \<bind> item1))
                  (map_option is_implication (item2 formula \<bind> item2)))))) of
        None \<Rightarrow> None
      | Some shape \<Rightarrow>
          if \<not> shape then Some False
          else do {
            A \<leftarrow> item1 formula \<bind> item1;
            B \<leftarrow> item1 formula \<bind> item2 \<bind> item1;
            C \<leftarrow> item1 formula \<bind> item2 \<bind> item2;
            py_and (map_option (\<lambda>x. x = Imp A B) (item2 formula \<bind> item1))
                   (map_option (\<lambda>x. x = Imp A C) (item2 formula \<bind> item2))
          })"

definition is_axiom3 :: "formula \<Rightarrow> bool option" where
  "is_axiom3 formula =
     (case py_and (Some (is_implication formula))
          (py_and (map_option is_implication (item1 formula))
          (py_and (map_option is_negation (item1 formula \<bind> item1))
          (py_and (map_option is_negation (item1 formula \<bind> item2))
                  (map_option is_implication (item2 formula))))) of
        None \<Rightarrow> None
      | Some shape \<Rightarrow>
          if \<not> shape then Some False
          else do {
            A \<leftarrow> item2 formula \<bind> item1;
            B \<leftarrow> item2 formula \<bind> item2;
            map_option (\<lambda>x. x = Imp (Neg B) (Neg A)) (item1 formula)
          })"

section \<open>Proof lines\<close>







section \<open>Verifier\<close>














section \<open>Interpreter limits\<close>

text \<open>
  CPython bounds two things that the definitions above leave unbounded. The call stack
  is bounded by the recursion limit, 1000 frames by default: \<open>parse\<close> calls itself once for
  each \<open>~\<close> and once for each side of an implication, and every call of \<open>parse\<close> calls
  \<open>is_variable\<close> before anything else, so a call of \<open>parse\<close> nested deeper than the stack
  has room for raises \<open>RecursionError\<close>. And \<open>int()\<close> raises \<open>ValueError\<close> on a string of
  more digits than the digit limit, 4300 by default. \<open>verify_proof\<close> catches only
  \<open>ParserError\<close>, so both exceptions escape it.

  The definitions of this section repeat \<open>parse\<close> and \<open>verify_proof\<close> with the two
  limits as parameters: \<open>max_depth\<close> is the number of nested calls of \<open>parse\<close> the stack
  has room for when \<open>verify_proof\<close> calls it, \<open>max_digits\<close> is the digit limit. \<open>None\<close> is
  the exception that escapes. Formulas are compared only after they were parsed, and
  comparing two formulas nests no deeper than parsing them did.
\<close>







section \<open>What the axiom checkers recognise\<close>

lemma is_axiom1_eq: "is_axiom1 f = Some (\<exists>A B. f = Imp A (Imp B A))"
proof (cases f)
  case (Imp l r)
  then show ?thesis
    by (cases r) (auto simp: is_axiom1_def py_and_def)
qed (auto simp: is_axiom1_def py_and_def)

lemma is_axiom2_eq:
  "is_axiom2 f = Some (\<exists>A B C. f = Imp (Imp A (Imp B C)) (Imp (Imp A B) (Imp A C)))"
proof (cases f)
  case f: (Imp l r)
  show ?thesis
  proof (cases l)
    case l: (Imp a b)
    show ?thesis
    proof (cases r)
      case r: (Imp c d)
      show ?thesis
        unfolding f l r
        by (cases b; cases c; cases d) (auto simp: is_axiom2_def py_and_def)
    qed (auto simp: f l is_axiom2_def py_and_def)
  qed (auto simp: f is_axiom2_def py_and_def)
qed (auto simp: is_axiom2_def py_and_def)

lemma is_axiom3_eq:
  "is_axiom3 f = Some (\<exists>A B. f = Imp (Imp (Neg B) (Neg A)) (Imp A B))"
proof (cases f)
  case f: (Imp l r)
  show ?thesis
  proof (cases l)
    case l: (Imp a b)
    show ?thesis
      unfolding f l
      by (cases a; cases b; cases r) (auto simp: is_axiom3_def py_and_def)
  qed (auto simp: f is_axiom3_def py_and_def)
qed (auto simp: is_axiom3_def py_and_def)

text \<open>
  C2: \<open>is_axiom2\<close> returns true exactly on the instances of
  \<open>(A -> (B -> C)) -> ((A -> B) -> (A -> C))\<close>, every occurrence of a metavariable
  standing for the same formula.
\<close>

theorem is_axiom2_iff_instance:
  "is_axiom2 f = Some True \<longleftrightarrow>
     (\<exists>A B C. f = Imp (Imp A (Imp B C)) (Imp (Imp A B) (Imp A C)))"
  by (simp add: is_axiom2_eq)

theorem is_axiom2_iff_instance_witness:
  "is_axiom2 (Imp (Imp (Var ''P'') (Imp (Neg (Var ''Q'')) (Var ''R'')))
                  (Imp (Imp (Var ''P'') (Neg (Var ''Q''))) (Imp (Var ''P'') (Var ''R''))))
     = Some True"
  using is_axiom2_iff_instance
    [of "Imp (Imp (Var ''P'') (Imp (Neg (Var ''Q'')) (Var ''R'')))
             (Imp (Imp (Var ''P'') (Neg (Var ''Q''))) (Imp (Var ''P'') (Var ''R'')))"]
  by blast

text \<open>
  C3: \<open>is_axiom3\<close> returns true exactly on the instances of
  \<open>(~B -> ~A) -> (A -> B)\<close>: an implication whose right operand is an implication
  \<open>A -> B\<close> and whose left operand is \<open>~B -> ~A\<close> for the same \<open>A\<close> and \<open>B\<close>.
\<close>

theorem is_axiom3_iff_instance:
  "is_axiom3 f = Some True \<longleftrightarrow>
     (\<exists>A B. f = Imp (Imp (Neg B) (Neg A)) (Imp A B))"
  by (simp add: is_axiom3_eq)

theorem is_axiom3_iff_instance_witness:
  "is_axiom3 (Imp (Imp (Neg (Var ''B'')) (Neg (Imp (Var ''A'') (Var ''C''))))
                  (Imp (Imp (Var ''A'') (Var ''C'')) (Var ''B'')))
     = Some True"
  using is_axiom3_iff_instance
    [of "Imp (Imp (Neg (Var ''B'')) (Neg (Imp (Var ''A'') (Var ''C''))))
             (Imp (Imp (Var ''A'') (Var ''C'')) (Var ''B''))"]
  by blast

text \<open>
  C8: on every formula each of the three checkers returns a boolean and raises nothing,
  and it returns false on a formula that lacks the shape its guard asks for.
\<close>

theorem axiom_checkers_never_raise:
  "(\<exists>b. is_axiom1 f = Some b) \<and> (\<exists>b. is_axiom2 f = Some b) \<and> (\<exists>b. is_axiom3 f = Some b)
   \<and> ((\<nexists>a b c. f = Imp a (Imp b c)) \<longrightarrow> is_axiom1 f = Some False)
   \<and> ((\<nexists>a b c d e g h. f = Imp (Imp a (Imp b c)) (Imp (Imp d e) (Imp g h)))
        \<longrightarrow> is_axiom2 f = Some False)
   \<and> ((\<nexists>a b c d. f = Imp (Imp (Neg a) (Neg b)) (Imp c d)) \<longrightarrow> is_axiom3 f = Some False)"
proof -
  have "(\<nexists>a b c. f = Imp a (Imp b c)) \<Longrightarrow> is_axiom1 f = Some False"
    unfolding is_axiom1_eq by blast
  moreover have "(\<nexists>a b c d e g h. f = Imp (Imp a (Imp b c)) (Imp (Imp d e) (Imp g h)))
      \<Longrightarrow> is_axiom2 f = Some False"
    unfolding is_axiom2_eq by blast
  moreover have "(\<nexists>a b c d. f = Imp (Imp (Neg a) (Neg b)) (Imp c d))
      \<Longrightarrow> is_axiom3 f = Some False"
    unfolding is_axiom3_eq by blast
  ultimately show ?thesis
    by (simp add: is_axiom1_eq is_axiom2_eq is_axiom3_eq)
qed

theorem axiom_checkers_never_raise_witness:
  "is_axiom1 (Neg (Var ''A'')) = Some False \<and> is_axiom2 (Neg (Var ''A'')) = Some False
   \<and> is_axiom3 (Neg (Var ''A'')) = Some False"
  using axiom_checkers_never_raise [of "Neg (Var ''A'')"] by simp

section \<open>Facts about strings\<close>











section \<open>Justification tokens\<close>






section \<open>Modus ponens\<close>







section \<open>Without the interpreter limits the verifier raises nothing\<close>







section \<open>The parser on concrete formulas\<close>

text \<open>
  C4: the right operand of an implication should be everything after the first \<open>->\<close>
  at depth zero. The source slices it from \<open>split_index + 3\<close>, one character past the
  arrow, so the character that follows the arrow is dropped: \<open>(A->~B)\<close> parses as
  \<open>A -> B\<close>, \<open>(A->B)\<close> and \<open>(A->(B->C))\<close> are rejected, and only an arrow followed
  by one more character (a space, say) parses as written.
\<close>

theorem parse_drops_character_after_arrow:
  "parse ''(A->~B)'' = Inr (Imp (Var ''A'') (Var ''B''))
   \<and> parse ''(A->B)'' = Inl (MalformedImplication ''(A->B)'')
   \<and> parse ''(A->(B->C))'' = Inl (InvalidSyntax ''B->C)'')
   \<and> parse ''(A -> (B -> C))'' = Inr (Imp (Var ''A'') (Imp (Var ''B'') (Var ''C'')))"
  by code_simp

text \<open>
  C9: white space after \<open>~\<close>, around \<open>->\<close> and inside the parentheses should not
  change the parsed term. After \<open>~\<close> it does not, but \<open>parse\<close> drops the character
  after \<open>->\<close>, so \<open>( A -> B )\<close> is an implication and \<open>(A->B)\<close> is an error.
\<close>

theorem parse_whitespace_after_arrow_matters:
  "parse ''( A -> B )'' = Inr (Imp (Var ''A'') (Var ''B''))
   \<and> parse ''(A->B)'' \<noteq> parse ''( A -> B )''
   \<and> parse ''(A-> B)'' = parse ''( A -> B )''
   \<and> parse ''~ A'' = parse ''~A''"
  by code_simp

section \<open>Verdicts\<close>

subsection \<open>Within the limits the limited verifier is the unlimited one\<close>









subsection \<open>Beyond the limits an exception escapes\<close>








subsection \<open>The verdict\<close>



section \<open>Line numbers\<close>






section \<open>The proven formulas\<close>





section \<open>Lines without formula text\<close>









end
